theory Spec2Isabelle
  imports Main "HOL-Library.Word"
begin

section \<open>The MongoDB cache store of \<^verbatim>\<open>src/index.js\<close>\<close>

text \<open>
  The adapter translates \<^verbatim>\<open>get\<close>, \<^verbatim>\<open>set\<close>, \<^verbatim>\<open>del\<close> and \<^verbatim>\<open>reset\<close> into
  calls on a MongoDB collection. Every call completes through a callback
  \<^verbatim>\<open>fn(err, result)\<close>; the model returns what the callback receives, as a sum
  (\<open>Inl\<close> the error of \<^verbatim>\<open>fn(err)\<close>, \<open>Inr\<close> the result of \<^verbatim>\<open>fn(null, result)\<close>),
  paired with the collection after the call. What the outside world decides
  (the clock, a failure of the database, the codec of zlib) is an argument.
\<close>

subsection \<open>Values\<close>

type_synonym bytes = "8 word list"

text \<open>
  JavaScript values as far as the adapter tells them apart: the two empty
  sentinels, primitives, a \<^verbatim>\<open>Buffer\<close>, the driver's \<^verbatim>\<open>Binary\<close> wrapper (an object
  whose \<^verbatim>\<open>buffer\<close> field is a \<^verbatim>\<open>Buffer\<close>), objects and arrays. Numbers are the
  integer-valued ones (seconds, milliseconds, counts), with exact arithmetic, as
  JavaScript's is on integers below \<open>2 ^ 53\<close>; an object is the list of its fields.
\<close>

datatype js_value =
    JNull
  | JUndefined
  | JBool bool
  | JNum int
  | JStr string
  | JBuffer bytes
  | JBinary bytes
  | JObject "(string \<times> js_value) list"
  | JArray "js_value list"

datatype error =
    MongoError string
  | ZlibError string
  | TypeError

text \<open>\<^verbatim>\<open>Buffer.isBuffer(x)\<close>.\<close>

fun isBuffer :: "js_value \<Rightarrow> bool" where
  "isBuffer (JBuffer b) = True"
| "isBuffer v = False"

subsection \<open>Documents and the collection\<close>

text \<open>
  The persisted document \<^verbatim>\<open>{key, value, expiresAt, compressed?}\<close>. The field
  \<^verbatim>\<open>value\<close> is \<open>doc_value\<close> here and the others are prefixed alike;
  \<open>doc_compressed\<close> is the truth value of the field \<^verbatim>\<open>compressed\<close>, \<open>False\<close> when the
  field is absent.
\<close>

record doc =
  doc_key :: string
  doc_value :: js_value
  doc_expiresAt :: int
  doc_compressed :: bool

type_synonym collection = "doc list"

text \<open>The query of a \<^verbatim>\<open>remove\<close>: \<^verbatim>\<open>{key : key}\<close> or \<^verbatim>\<open>{}\<close>.\<close>

datatype query = ByKey string | Everything

fun matches :: "query \<Rightarrow> doc \<Rightarrow> bool" where
  "matches (ByKey k) d = (doc_key d = k)"
| "matches Everything d = True"

text \<open>What the database does with a write, decided outside the adapter.\<close>

datatype write_fault = WriteOk | WriteFails error | NoneAffected

text \<open>
  The world around one call: \<^verbatim>\<open>Date.now()\<close>, and whether the database fails the
  \<^verbatim>\<open>findOne\<close>, the \<^verbatim>\<open>update\<close> or the \<^verbatim>\<open>remove\<close> that the call issues.
\<close>

record world =
  now :: int
  findOne_err :: "error option"
  update_fault :: write_fault
  remove_err :: "error option"

text \<open>
  Modelled from the spec: the collection object of the MongoDB driver
  (\<^verbatim>\<open>findOne\<close>, \<^verbatim>\<open>update\<close> with \<^verbatim>\<open>upsert\<close>, \<^verbatim>\<open>remove\<close>) is an external
  collaborator with no code in the repository. The collection is the list of its
  documents in natural order and keeps values as they are written.
  \<^verbatim>\<open>findOne\<close> looks up the first document matching \<^verbatim>\<open>key\<close>; an upsert "inserts a
  new document if none matches the filter, or replaces the existing match
  otherwise"; \<^verbatim>\<open>remove\<close> deletes every matching document and acknowledges with
  their number. A call that the database fails leaves the collection as it was
  and delivers the error; an update that "reports no document was affected"
  delivers a falsy result and leaves the collection as it was.
\<close>

definition coll_findOne :: "string \<Rightarrow> error option \<Rightarrow> collection \<Rightarrow> error + doc option" where
  "coll_findOne k err c =
     (case err of Some e \<Rightarrow> Inl e | None \<Rightarrow> Inr (find (\<lambda>d. doc_key d = k) c))"

fun upsert :: "string \<Rightarrow> doc \<Rightarrow> collection \<Rightarrow> collection" where
  "upsert k data [] = [data]"
| "upsert k data (d # ds) = (if doc_key d = k then data # ds else d # upsert k data ds)"

definition coll_update :: "string \<Rightarrow> doc \<Rightarrow> write_fault \<Rightarrow> collection \<Rightarrow> (error + nat) \<times> collection" where
  "coll_update k data fault c =
     (case fault of
        WriteFails e \<Rightarrow> (Inl e, c)
      | NoneAffected \<Rightarrow> (Inr 0, c)
      | WriteOk \<Rightarrow> (Inr 1, upsert k data c))"

definition coll_remove :: "query \<Rightarrow> error option \<Rightarrow> collection \<Rightarrow> (error + nat) \<times> collection" where
  "coll_remove q err c =
     (case err of
        Some e \<Rightarrow> (Inl e, c)
      | None \<Rightarrow> (Inr (length (filter (matches q) c)), filter (\<lambda>d. \<not> matches q d) c))"

text \<open>
  The index that the constructor declares (lines 82 to 88):
  \<^verbatim>\<open>createIndex({expiresAt : 1}, {unique : true, background : true,
  expireAfterSeconds : store.MongoOptions.ttl})\<close>.
\<close>

record index_spec =
  index_field :: string
  unique :: bool
  background :: bool
  expireAfterSeconds :: "int option"

subsection \<open>The store\<close>

text \<open>
  The fields of the store that the operations read: \<^verbatim>\<open>store.MongoOptions.ttl\<close>
  (\<open>None\<close> when the option is not given) and \<^verbatim>\<open>store.compression\<close>
  (\<^verbatim>\<open>store.MongoOptions.compression || false\<close>, as a truth value).
\<close>

record store =
  MongoOptions_ttl :: "int option"
  compression :: bool

definition createIndex_spec :: "store \<Rightarrow> index_spec" where
  "createIndex_spec st =
     \<lparr>index_field = ''expiresAt'', unique = True, background = True,
      expireAfterSeconds = MongoOptions_ttl st\<rparr>"

text \<open>The options of one \<^verbatim>\<open>set\<close> call; \<open>None\<close> is a \<^verbatim>\<open>ttl\<close> that is not given.\<close>

record options =
  ttl :: "int option"

text \<open>The two functions of zlib that the store calls, each delivering an error or the bytes.\<close>

record zlib =
  gzip :: "bytes \<Rightarrow> error + bytes"
  gunzip :: "bytes \<Rightarrow> error + bytes"

text \<open>Truthiness of an optional number: \<^verbatim>\<open>undefined\<close> and \<^verbatim>\<open>0\<close> are falsy.\<close>

definition truthy :: "int option \<Rightarrow> bool" where
  "truthy t = (case t of None \<Rightarrow> False | Some n \<Rightarrow> n \<noteq> 0)"

text \<open>\<^verbatim>\<open>t || 60\<close>.\<close>

definition or_60 :: "int option \<Rightarrow> int" where
  "or_60 t = (case t of None \<Rightarrow> 60 | Some n \<Rightarrow> if n \<noteq> 0 then n else 60)"

text \<open>
  \<^verbatim>\<open>store.compress(data, fn)\<close>: the pair is what \<^verbatim>\<open>fn(err, data)\<close> receives. Only a
  \<^verbatim>\<open>Buffer\<close> is compressed; when zlib fails the data is passed on unchanged,
  with the error.
\<close>

definition compress :: "zlib \<Rightarrow> doc \<Rightarrow> error option \<times> doc" where
  "compress zl data =
     (case doc_value data of
        JBuffer b \<Rightarrow>
          (case gzip zl b of
             Inr val \<Rightarrow> (None, data\<lparr>doc_value := JBuffer val, doc_compressed := True\<rparr>)
           | Inl err \<Rightarrow> (Some err, data))
      | _ \<Rightarrow> (None, data))"

text \<open>
  \<^verbatim>\<open>store.decompress(value, fn)\<close> (line 132): reading \<^verbatim>\<open>value.buffer\<close> throws a
  \<^verbatim>\<open>TypeError\<close> on \<^verbatim>\<open>null\<close> and \<^verbatim>\<open>undefined\<close>; a value whose \<^verbatim>\<open>buffer\<close> field is a
  \<^verbatim>\<open>Buffer\<close> (the driver's \<^verbatim>\<open>Binary\<close>, or any object with such a field) is
  unwrapped, every other value is passed on as it is. \<^verbatim>\<open>gunzip\<close> takes a \<^verbatim>\<open>Buffer\<close> or
  a string (its bytes) and throws a \<^verbatim>\<open>TypeError\<close> on anything else. The caller
  catches what is thrown and delivers it, so both ways of failing are \<open>Inl\<close>.
\<close>

fun decompress :: "zlib \<Rightarrow> js_value \<Rightarrow> error + js_value" where
  "decompress zl JNull = Inl TypeError"
| "decompress zl JUndefined = Inl TypeError"
| "decompress zl (JBinary b) = map_sum id JBuffer (gunzip zl b)"
| "decompress zl (JObject fs) =
     (case map_of fs ''buffer'' of
        Some (JBuffer b) \<Rightarrow> map_sum id JBuffer (gunzip zl b)
      | _ \<Rightarrow> Inl TypeError)"
| "decompress zl (JBuffer b) = map_sum id JBuffer (gunzip zl b)"
| "decompress zl (JStr s) = map_sum id JBuffer (gunzip zl (map of_char s))"
| "decompress zl v = Inl TypeError"

subsection \<open>The operations\<close>

text \<open>
  \<^verbatim>\<open>MongoStore.prototype.del\<close>: \<^verbatim>\<open>remove({key : key}, {safe : true}, fn)\<close>; the
  callback is the database's own.
\<close>

definition MongoStore_del :: "world \<Rightarrow> string \<Rightarrow> collection \<Rightarrow> (error + nat) \<times> collection" where
  "MongoStore_del w k c = coll_remove (ByKey k) (remove_err w) c"

text \<open>
  \<^verbatim>\<open>MongoStore.prototype.get\<close>. The delete of an expired entry is issued without
  a callback; the model runs it within the call and drops its result.
\<close>

definition MongoStore_get :: "zlib \<Rightarrow> world \<Rightarrow> string \<Rightarrow> collection \<Rightarrow> (error + js_value) \<times> collection" where
  "MongoStore_get zl w k c =
     (case coll_findOne k (findOne_err w) c of
        Inl err \<Rightarrow> (Inl err, c)
      | Inr None \<Rightarrow> (Inr JNull, c)
      | Inr (Some data) \<Rightarrow>
          if doc_expiresAt data < now w then (Inr JNull, snd (MongoStore_del w k c))
          else if doc_compressed data then (decompress zl (doc_value data), c)
          else (Inr (doc_value data), c))"

text \<open>Line 199: the TTL that \<^verbatim>\<open>set\<close> picks, before the default of line 214.\<close>

definition set_ttl :: "store \<Rightarrow> options option \<Rightarrow> int option" where
  "set_ttl st opts =
     (case opts of
        None \<Rightarrow> MongoOptions_ttl st
      | Some os \<Rightarrow> if truthy (ttl os) \<or> ttl os = Some 0 then ttl os else MongoOptions_ttl st)"

text \<open>
  Lines 211 to 215: the candidate entry. Nothing in the object literal throws, so
  the \<^verbatim>\<open>catch\<close> of line 216 is never entered.
\<close>

definition set_data :: "store \<Rightarrow> world \<Rightarrow> string \<Rightarrow> js_value \<Rightarrow> options option \<Rightarrow> doc" where
  "set_data st w k val opts =
     \<lparr>doc_key = k, doc_value = val,
      doc_expiresAt = now w + or_60 (set_ttl st opts) * 1000,
      doc_compressed = False\<rparr>"

text \<open>The inner function \<^verbatim>\<open>update(data)\<close> of \<^verbatim>\<open>set\<close> (lines 231 to 241).\<close>

definition update :: "world \<Rightarrow> string \<Rightarrow> js_value \<Rightarrow> doc \<Rightarrow> collection \<Rightarrow> (error + js_value) \<times> collection" where
  "update w k val data c =
     (case coll_update k data (update_fault w) c of
        (Inl err, c') \<Rightarrow> (Inl err, c')
      | (Inr n, c') \<Rightarrow> if n = 0 then (Inr JNull, c') else (Inr val, c'))"

text \<open>\<^verbatim>\<open>MongoStore.prototype.set\<close>; \<open>opts = None\<close> when no options object is passed.\<close>

definition MongoStore_set ::
  "store \<Rightarrow> zlib \<Rightarrow> world \<Rightarrow> string \<Rightarrow> js_value \<Rightarrow> options option \<Rightarrow> collection
     \<Rightarrow> (error + js_value) \<times> collection" where
  "MongoStore_set st zl w k val opts c =
     (let data = set_data st w k val opts in
      if \<not> compression st then update w k val data c
      else (case compress zl data of
              (Some err, data') \<Rightarrow> (Inl err, c)
            | (None, data') \<Rightarrow> update w k val data' c))"

text \<open>
  \<^verbatim>\<open>MongoStore.prototype.reset\<close>: \<^verbatim>\<open>remove({}, {safe : true}, fn)\<close>. The first
  argument is a key or the callback; the body never reads it.
\<close>

definition MongoStore_reset :: "world \<Rightarrow> js_value \<Rightarrow> collection \<Rightarrow> (error + nat) \<times> collection" where
  "MongoStore_reset w karg c = coll_remove Everything (remove_err w) c"

text \<open>\<^verbatim>\<open>MongoStore.prototype.isCacheableValue\<close>.\<close>

definition isCacheableValue :: "js_value \<Rightarrow> bool" where
  "isCacheableValue v = (v \<noteq> JNull \<and> v \<noteq> JUndefined)"

text \<open>The invariant of the collection: no two documents have the same key.\<close>

definition one_per_key :: "collection \<Rightarrow> bool" where
  "one_per_key c = distinct (map doc_key c)"

text \<open>
  Modelled from the spec: the "uniqueness constraint" of an index is the database's,
  with no code in the repository. A collection satisfies a unique index when no two
  of its documents have the same value in the indexed field; an index that is not
  unique constrains nothing. \<open>doc_field\<close> reads a field of a document by name.
\<close>

definition doc_field :: "string \<Rightarrow> doc \<Rightarrow> js_value" where
  "doc_field f d =
     (if f = ''key'' then JStr (doc_key d)
      else if f = ''value'' then doc_value d
      else if f = ''expiresAt'' then JNum (doc_expiresAt d)
      else if f = ''compressed'' \<and> doc_compressed d then JBool True
      else JUndefined)"

definition index_satisfied :: "index_spec \<Rightarrow> collection \<Rightarrow> bool" where
  "index_satisfied ix c = (if unique ix then distinct (map (doc_field (index_field ix)) c) else True)"

text \<open>
  A caller's calls on one store, each with the world around it, and the collection
  they lead to when they run one after the other.
\<close>

datatype call =
    Get world string
  | Set world string js_value "options option"
  | Del world string
  | Reset world js_value

fun exec :: "store \<Rightarrow> zlib \<Rightarrow> call \<Rightarrow> collection \<Rightarrow> collection" where
  "exec st zl (Get w k) c = snd (MongoStore_get zl w k c)"
| "exec st zl (Set w k val opts) c = snd (MongoStore_set st zl w k val opts c)"
| "exec st zl (Del w k) c = snd (MongoStore_del w k c)"
| "exec st zl (Reset w karg) c = snd (MongoStore_reset w karg c)"

fun run :: "store \<Rightarrow> zlib \<Rightarrow> call list \<Rightarrow> collection \<Rightarrow> collection" where
  "run st zl [] c = c"
| "run st zl (x # xs) c = run st zl xs (exec st zl x c)"

text \<open>
  A codec to run the operations on concrete inputs: it frames the bytes with the
  two magic bytes of gzip and refuses input without them.
\<close>

definition frame_zlib :: zlib where
  "frame_zlib =
     \<lparr>gzip = (\<lambda>b. Inr (0x1f # 0x8b # b)),
      gunzip = (\<lambda>b. if take 2 b = [0x1f, 0x8b] then Inr (drop 2 b)
                     else Inl (ZlibError ''incorrect header check''))\<rparr>"

definition calm :: "int \<Rightarrow> world" where
  "calm t = \<lparr>now = t, findOne_err = None, update_fault = WriteOk, remove_err = None\<rparr>"

subsection \<open>The callback of set, as specified\<close>

text \<open>
  The specification of \<^verbatim>\<open>set\<close>: it "returns the original (uncompressed, pre-storage)
  value to the caller on success; returns null if the store reports no document was
  affected; propagates store/compression errors". Compression is attempted when it is
  enabled and the value is a \<^verbatim>\<open>Buffer\<close>.
\<close>

definition spec_set_callback :: "store \<Rightarrow> zlib \<Rightarrow> world \<Rightarrow> js_value \<Rightarrow> error + js_value" where
  "spec_set_callback st zl w val =
     (case (if compression st
            then (case val of
                    JBuffer b \<Rightarrow> (case gzip zl b of Inl e \<Rightarrow> Some e | Inr z \<Rightarrow> None)
                  | _ \<Rightarrow> None)
            else None) of
        Some e \<Rightarrow> Inl e
      | None \<Rightarrow>
          (case update_fault w of
             WriteFails e \<Rightarrow> Inl e
           | NoneAffected \<Rightarrow> Inr JNull
           | WriteOk \<Rightarrow> Inr val))"

section \<open>Properties\<close>

subsection \<open>The collection\<close>

lemma find_upsert:
  "doc_key data = k \<Longrightarrow> find (\<lambda>d. doc_key d = k) (upsert k data c) = Some data"
  by (induction c) auto

lemma map_key_upsert:
  "doc_key data = k \<Longrightarrow>
   map doc_key (upsert k data c) = (if k \<in> doc_key ` set c then map doc_key c else map doc_key c @ [k])"
  by (induction c) auto

lemma one_per_key_upsert:
  "doc_key data = k \<Longrightarrow> one_per_key c \<Longrightarrow> one_per_key (upsert k data c)"
  by (simp add: one_per_key_def map_key_upsert)

lemma one_per_key_filter: "one_per_key c \<Longrightarrow> one_per_key (filter P c)"
  by (simp add: one_per_key_def distinct_map_filter)

lemma one_per_key_coll_remove: "one_per_key c \<Longrightarrow> one_per_key (snd (coll_remove q err c))"
  by (simp add: coll_remove_def one_per_key_filter split: option.splits)

lemma one_per_key_coll_update:
  "doc_key data = k \<Longrightarrow> one_per_key c \<Longrightarrow> one_per_key (snd (coll_update k data f c))"
  by (simp add: coll_update_def one_per_key_upsert split: write_fault.splits)

lemma doc_key_compress: "doc_key (snd (compress zl data)) = doc_key data"
  by (simp add: compress_def split: js_value.splits sum.splits)

lemma snd_update: "snd (update w k val data c) = snd (coll_update k data (update_fault w) c)"
  by (simp add: update_def split: prod.splits sum.splits)

lemma doc_key_set_data: "doc_key (set_data st w k val opts) = k"
  by (simp add: set_data_def)

lemma one_per_key_update:
  "doc_key data = k \<Longrightarrow> one_per_key c \<Longrightarrow> one_per_key (snd (update w k val data c))"
  by (simp add: snd_update one_per_key_coll_update)

lemma one_per_key_set:
  assumes "one_per_key c"
  shows "one_per_key (snd (MongoStore_set st zl w k val opts c))"
proof (cases "compression st")
  case False
  then show ?thesis
    using assms by (simp add: MongoStore_set_def one_per_key_update doc_key_set_data)
next
  case True
  obtain e data' where cd: "compress zl (set_data st w k val opts) = (e, data')"
    by (cases "compress zl (set_data st w k val opts)")
  have "doc_key data' = k"
    using doc_key_compress [of zl "set_data st w k val opts"] cd
    by (simp add: doc_key_set_data)
  then show ?thesis
    using assms True cd
    by (cases e) (simp_all add: MongoStore_set_def one_per_key_update)
qed

lemma one_per_key_get:
  "one_per_key c \<Longrightarrow> one_per_key (snd (MongoStore_get zl w k c))"
  by (simp add: MongoStore_get_def MongoStore_del_def one_per_key_coll_remove split: sum.splits option.splits)

lemma count_key:
  "one_per_key c \<Longrightarrow>
   length (filter (\<lambda>d. doc_key d = k) c) = (if k \<in> doc_key ` set c then 1 else 0)"
  by (induction c) (auto simp add: one_per_key_def)

lemma key_in_upsert: "doc_key data = k \<Longrightarrow> k \<in> doc_key ` set (upsert k data c)"
  by (induction c) auto

lemma one_entry_after_upsert:
  "doc_key data = k \<Longrightarrow> one_per_key c \<Longrightarrow>
   length (filter (\<lambda>d. doc_key d = k) (upsert k data c)) = 1"
  by (simp add: count_key one_per_key_upsert key_in_upsert)

subsection \<open>The steps of the operations\<close>

lemma matches_ByKey: "matches (ByKey k) = (\<lambda>d. doc_key d = k)"
  by (simp add: fun_eq_iff)

lemma find_None_filter:
  "find P c = None \<Longrightarrow> filter P c = [] \<and> filter (\<lambda>d. \<not> P d) c = c"
  by (induction c) (auto split: if_splits)

lemma fst_update:
  "fst (update w k val data c) =
     (case update_fault w of WriteOk \<Rightarrow> Inr val | NoneAffected \<Rightarrow> Inr JNull | WriteFails e \<Rightarrow> Inl e)"
  by (simp add: update_def coll_update_def split: write_fault.splits)

lemma update_WriteOk:
  "update_fault w = WriteOk \<Longrightarrow> update w k val data c = (Inr val, upsert k data c)"
  by (simp add: update_def coll_update_def)

lemma compress_not_Buffer: "\<not> isBuffer (doc_value data) \<Longrightarrow> compress zl data = (None, data)"
  by (cases "doc_value data") (simp_all add: compress_def)

lemma compress_Buffer_ok:
  "doc_value data = JBuffer b \<Longrightarrow> gzip zl b = Inr z \<Longrightarrow>
   compress zl data = (None, data\<lparr>doc_value := JBuffer z, doc_compressed := True\<rparr>)"
  by (simp add: compress_def)

lemma compress_Buffer_fails:
  "doc_value data = JBuffer b \<Longrightarrow> gzip zl b = Inl e \<Longrightarrow> compress zl data = (Some e, data)"
  by (simp add: compress_def)

lemma set_not_compressed:
  "\<not> (compression st \<and> isBuffer val) \<Longrightarrow>
   MongoStore_set st zl w k val opts c = update w k val (set_data st w k val opts) c"
  by (cases "compression st") (simp_all add: MongoStore_set_def compress_not_Buffer set_data_def)

lemma set_compressed:
  "compression st \<Longrightarrow> gzip zl b = Inr z \<Longrightarrow>
   MongoStore_set st zl w k (JBuffer b) opts c =
     update w k (JBuffer b)
       ((set_data st w k (JBuffer b) opts)\<lparr>doc_value := JBuffer z, doc_compressed := True\<rparr>) c"
  by (simp add: MongoStore_set_def compress_def set_data_def)

lemma get_live:
  "findOne_err w = None \<Longrightarrow> find (\<lambda>d. doc_key d = k) c = Some d \<Longrightarrow> \<not> doc_expiresAt d < now w \<Longrightarrow>
   MongoStore_get zl w k c =
     ((if doc_compressed d then decompress zl (doc_value d) else Inr (doc_value d)), c)"
  by (simp add: MongoStore_get_def coll_findOne_def)

lemma decompress_Binary: "decompress zl (JBinary b) = decompress zl (JBuffer b)"
  by simp

lemma set_compression_fails:
  "compression st \<Longrightarrow> gzip zl b = Inl e \<Longrightarrow> MongoStore_set st zl w k (JBuffer b) opts c = (Inl e, c)"
  by (simp add: MongoStore_set_def compress_def set_data_def)

lemma set_performed:
  assumes "update_fault w = WriteOk" and "fst (MongoStore_set st zl w k val opts c) = Inr r"
  shows "\<exists>data. doc_key data = k \<and> snd (MongoStore_set st zl w k val opts c) = upsert k data c"
proof (cases "compression st \<and> isBuffer val")
  case False
  then have "snd (MongoStore_set st zl w k val opts c) = upsert k (set_data st w k val opts) c"
    using assms(1) by (simp add: set_not_compressed update_WriteOk)
  then show ?thesis
    using doc_key_set_data by blast
next
  case True
  then obtain b where v: "val = JBuffer b" by (cases val) simp_all
  show ?thesis
  proof (cases "gzip zl b")
    case (Inl e)
    then show ?thesis
      using True v assms(2) by (simp add: set_compression_fails)
  next
    case (Inr z)
    let ?d = "(set_data st w k val opts)\<lparr>doc_value := JBuffer z, doc_compressed := True\<rparr>"
    have "snd (MongoStore_set st zl w k val opts c) = upsert k ?d c"
      using True v Inr assms(1) by (simp add: set_compressed update_WriteOk)
    moreover have "doc_key ?d = k"
      by (simp add: doc_key_set_data)
    ultimately show ?thesis by blast
  qed
qed

lemma set_data_expiresAt:
  "doc_expiresAt (set_data st w k val opts) =
     now w + 1000 * (case (case opts of None \<Rightarrow> None | Some os \<Rightarrow> ttl os) of
                       Some n \<Rightarrow> if n \<noteq> 0 then n else 60
                     | None \<Rightarrow> (case MongoOptions_ttl st of
                                   Some m \<Rightarrow> if m \<noteq> 0 then m else 60
                                 | None \<Rightarrow> 60))"
  by (simp add: set_data_def set_ttl_def truthy_def or_60_def split: option.splits)

lemma one_per_key_del: "one_per_key c \<Longrightarrow> one_per_key (snd (MongoStore_del w k c))"
  by (simp add: MongoStore_del_def one_per_key_coll_remove)

lemma one_per_key_reset: "one_per_key c \<Longrightarrow> one_per_key (snd (MongoStore_reset w karg c))"
  by (simp add: MongoStore_reset_def one_per_key_coll_remove)

lemma one_per_key_exec: "one_per_key c \<Longrightarrow> one_per_key (exec st zl x c)"
  by (cases x) (simp_all add: one_per_key_set one_per_key_get one_per_key_del one_per_key_reset)

lemma one_per_key_run: "one_per_key c \<Longrightarrow> one_per_key (run st zl calls c)"
  by (induction calls arbitrary: c) (simp_all add: one_per_key_exec)

lemma index_admits_duplicate:
  "index_satisfied (createIndex_spec st)
     [\<lparr>doc_key = ''k'', doc_value = JNull, doc_expiresAt = 0, doc_compressed = False\<rparr>,
      \<lparr>doc_key = ''k'', doc_value = JNull, doc_expiresAt = 1, doc_compressed = False\<rparr>]
   \<and> \<not> one_per_key
     [\<lparr>doc_key = ''k'', doc_value = JNull, doc_expiresAt = 0, doc_compressed = False\<rparr>,
      \<lparr>doc_key = ''k'', doc_value = JNull, doc_expiresAt = 1, doc_compressed = False\<rparr>]"
  by (simp add: index_satisfied_def createIndex_spec_def doc_field_def one_per_key_def)

lemmas run_defs =
  MongoStore_get_def MongoStore_set_def MongoStore_del_def MongoStore_reset_def
  coll_findOne_def coll_update_def coll_remove_def update_def compress_def set_data_def
  set_ttl_def truthy_def or_60_def calm_def frame_zlib_def

subsection \<open>The claims\<close>

text \<open>
  C1. The time to live of a \<^verbatim>\<open>set\<close> and the \<^verbatim>\<open>expiresAt\<close> it stores. Line 199
  keeps an explicit \<^verbatim>\<open>options.ttl = 0\<close>, but \<^verbatim>\<open>(ttl || 60)\<close> on line 214 replaces the
  zero by 60: a \<^verbatim>\<open>set\<close> at time 1000 with \<^verbatim>\<open>{ttl : 0}\<close> stores
  \<^verbatim>\<open>expiresAt = 61000\<close>, not 1000.
\<close>

theorem set_ttl_zero_expires_after_60s:
  "MongoStore_set \<lparr>MongoOptions_ttl = None, compression = False\<rparr> frame_zlib (calm 1000)
     ''k'' (JStr ''v'') (Some \<lparr>ttl = Some 0\<rparr>) []
   = (Inr (JStr ''v''),
      [\<lparr>doc_key = ''k'', doc_value = JStr ''v'', doc_expiresAt = 61000, doc_compressed = False\<rparr>])"
  by (simp add: MongoStore_set_def set_data_def set_ttl_def truthy_def or_60_def update_def
      coll_update_def calm_def)

text \<open>
  C2. When \<^verbatim>\<open>get\<close> finds a document whose \<^verbatim>\<open>expiresAt\<close> is before now, it
  reports absent (\<^verbatim>\<open>fn(null, null)\<close>) whatever the delete does, and the collection
  afterwards is the one that \<^verbatim>\<open>del\<close> of that key leaves: without the entry when the
  database performs the remove.
\<close>

theorem get_expired_deletes_and_reports_absent:
  assumes "findOne_err w = None"
    and "find (\<lambda>d. doc_key d = k) c = Some d"
    and "doc_expiresAt d < now w"
  shows "MongoStore_get zl w k c = (Inr JNull, snd (MongoStore_del w k c))
         \<and> snd (MongoStore_del w k c) =
             (if remove_err w = None then filter (\<lambda>x. doc_key x \<noteq> k) c else c)"
  using assms
  by (auto simp add: MongoStore_get_def MongoStore_del_def coll_findOne_def coll_remove_def)

theorem get_expired_witness:
  "findOne_err (calm 1000) = None
   \<and> find (\<lambda>d. doc_key d = ''k'')
        [\<lparr>doc_key = ''k'', doc_value = JStr ''v'', doc_expiresAt = 999, doc_compressed = False\<rparr>]
      = Some \<lparr>doc_key = ''k'', doc_value = JStr ''v'', doc_expiresAt = 999, doc_compressed = False\<rparr>
   \<and> doc_expiresAt \<lparr>doc_key = ''k'', doc_value = JStr ''v'', doc_expiresAt = 999, doc_compressed = False\<rparr>
        < now (calm 1000)
   \<and> MongoStore_get frame_zlib (calm 1000) ''k''
        [\<lparr>doc_key = ''k'', doc_value = JStr ''v'', doc_expiresAt = 999, doc_compressed = False\<rparr>]
      = (Inr JNull, [])"
  using get_expired_deletes_and_reports_absent
    [where w = "calm 1000" and k = "''k''" and zl = frame_zlib
      and c = "[\<lparr>doc_key = ''k'', doc_value = JStr ''v'', doc_expiresAt = 999, doc_compressed = False\<rparr>]"
      and d = "\<lparr>doc_key = ''k'', doc_value = JStr ''v'', doc_expiresAt = 999, doc_compressed = False\<rparr>"]
  by (simp add: calm_def)

text \<open>
  C3. A \<^verbatim>\<open>set\<close> that the database performs, followed by a \<^verbatim>\<open>get\<close> of the same key
  while the entry is live, delivers the value that was set: any value that is not a
  \<^verbatim>\<open>Buffer\<close>, and a \<^verbatim>\<open>Buffer\<close> when compression is enabled and \<^verbatim>\<open>gunzip\<close> inverts
  \<^verbatim>\<open>gzip\<close> on it.
\<close>

theorem set_then_get_roundtrip:
  assumes "update_fault w = WriteOk" and "findOne_err w' = None"
    and "now w' \<le> now w + or_60 (set_ttl st opts) * 1000"
    and "case v of JBuffer b \<Rightarrow> compression st \<and> (\<exists>z. gzip zl b = Inr z \<and> gunzip zl z = Inr b)
         | _ \<Rightarrow> True"
  shows "fst (MongoStore_set st zl w k v opts c) = Inr v
         \<and> fst (MongoStore_get zl w' k (snd (MongoStore_set st zl w k v opts c))) = Inr v"
proof (cases "isBuffer v")
  case False
  then have s: "MongoStore_set st zl w k v opts c = (Inr v, upsert k (set_data st w k v opts) c)"
    using assms(1) by (simp add: set_not_compressed update_WriteOk)
  have "find (\<lambda>d. doc_key d = k) (upsert k (set_data st w k v opts) c) = Some (set_data st w k v opts)"
    by (rule find_upsert) (simp add: set_data_def)
  from get_live [OF assms(2) this, of zl] assms(3) s show ?thesis
    by (simp add: set_data_def)
next
  case True
  then obtain b where v: "v = JBuffer b" by (cases v) simp_all
  with assms(4) obtain z where z: "compression st" "gzip zl b = Inr z" "gunzip zl z = Inr b"
    by auto
  let ?d = "(set_data st w k v opts)\<lparr>doc_value := JBuffer z, doc_compressed := True\<rparr>"
  have s: "MongoStore_set st zl w k v opts c = (Inr v, upsert k ?d c)"
    using assms(1) z v by (simp add: set_compressed update_WriteOk)
  have "find (\<lambda>d. doc_key d = k) (upsert k ?d c) = Some ?d"
    by (rule find_upsert) (simp add: set_data_def)
  from get_live [OF assms(2) this, of zl] assms(3) s z v show ?thesis
    by (simp add: set_data_def)
qed

theorem set_then_get_witness:
  "update_fault (calm 1000) = WriteOk \<and> findOne_err (calm 2000) = None
   \<and> now (calm 2000) \<le> now (calm 1000)
        + or_60 (set_ttl \<lparr>MongoOptions_ttl = None, compression = True\<rparr> (Some \<lparr>ttl = Some 5\<rparr>)) * 1000
   \<and> compression \<lparr>MongoOptions_ttl = None, compression = True\<rparr>
   \<and> gzip frame_zlib [1, 2, 3] = Inr [0x1f, 0x8b, 1, 2, 3]
   \<and> gunzip frame_zlib [0x1f, 0x8b, 1, 2, 3] = Inr [1, 2, 3]
   \<and> fst (MongoStore_get frame_zlib (calm 2000) ''k''
        (snd (MongoStore_set \<lparr>MongoOptions_ttl = None, compression = True\<rparr> frame_zlib (calm 1000)
               ''k'' (JBuffer [1, 2, 3]) (Some \<lparr>ttl = Some 5\<rparr>) [])))
      = Inr (JBuffer [1, 2, 3])
   \<and> fst (MongoStore_get frame_zlib (calm 2000) ''k''
        (snd (MongoStore_set \<lparr>MongoOptions_ttl = None, compression = True\<rparr> frame_zlib (calm 1000)
               ''k'' (JObject [(''a'', JNum 1)]) (Some \<lparr>ttl = Some 5\<rparr>) [])))
      = Inr (JObject [(''a'', JNum 1)])"
  using set_then_get_roundtrip
    [where w = "calm 1000" and w' = "calm 2000"
      and st = "\<lparr>MongoOptions_ttl = None, compression = True\<rparr>"
      and opts = "Some \<lparr>ttl = Some 5\<rparr>" and v = "JBuffer [1, 2, 3]" and zl = frame_zlib
      and k = "''k''" and c = "[]"]
    set_then_get_roundtrip
    [where w = "calm 1000" and w' = "calm 2000"
      and st = "\<lparr>MongoOptions_ttl = None, compression = True\<rparr>"
      and opts = "Some \<lparr>ttl = Some 5\<rparr>" and v = "JObject [(''a'', JNum 1)]" and zl = frame_zlib
      and k = "''k''" and c = "[]"]
  by (simp add: calm_def frame_zlib_def or_60_def set_ttl_def truthy_def)

text \<open>
  C4. One entry per key is an invariant of every operation: \<^verbatim>\<open>set\<close>,
  \<^verbatim>\<open>get\<close>, \<^verbatim>\<open>del\<close> and \<^verbatim>\<open>reset\<close>, each database call being one step, lead from
  a collection without duplicate keys to a collection without duplicate keys,
  whatever the database answers, and so does every sequence of them; after a
  \<^verbatim>\<open>set\<close> that the database performs there is exactly one entry under the key.
  The invariant comes from the upsert by key alone: the unique index of the
  constructor is declared on \<^verbatim>\<open>expiresAt\<close>, and some collection satisfies it while
  holding two entries under one key.
\<close>

theorem one_entry_per_key_preserved:
  assumes "one_per_key c"
  shows "one_per_key (snd (MongoStore_set st zl w k val opts c))
         \<and> one_per_key (snd (MongoStore_get zl w k c))
         \<and> one_per_key (snd (MongoStore_del w k c))
         \<and> one_per_key (snd (MongoStore_reset w karg c))
         \<and> one_per_key (run st zl calls c)
         \<and> (update_fault w = WriteOk \<and> fst (MongoStore_set st zl w k val opts c) = Inr val \<longrightarrow>
              length (filter (\<lambda>d. doc_key d = k) (snd (MongoStore_set st zl w k val opts c))) = 1)
         \<and> (\<exists>c'. index_satisfied (createIndex_spec st) c' \<and> \<not> one_per_key c')"
proof -
  have "length (filter (\<lambda>d. doc_key d = k) (snd (MongoStore_set st zl w k val opts c))) = 1"
    if "update_fault w = WriteOk" and "fst (MongoStore_set st zl w k val opts c) = Inr val"
    using set_performed [OF that] assms by (auto simp add: one_entry_after_upsert)
  moreover have "\<exists>c'. index_satisfied (createIndex_spec st) c' \<and> \<not> one_per_key c'"
    using index_admits_duplicate [of st] by blast
  ultimately show ?thesis
    using assms
    by (simp add: one_per_key_set one_per_key_get one_per_key_del one_per_key_reset
        one_per_key_run)
qed

theorem one_entry_per_key_witness:
  "one_per_key [\<lparr>doc_key = ''k'', doc_value = JNum 1, doc_expiresAt = 5000, doc_compressed = False\<rparr>]
   \<and> update_fault (calm 1000) = WriteOk
   \<and> MongoStore_set \<lparr>MongoOptions_ttl = Some 10, compression = False\<rparr> frame_zlib (calm 1000)
        ''k'' (JNum 2) None
        [\<lparr>doc_key = ''k'', doc_value = JNum 1, doc_expiresAt = 5000, doc_compressed = False\<rparr>]
      = (Inr (JNum 2),
         [\<lparr>doc_key = ''k'', doc_value = JNum 2, doc_expiresAt = 11000, doc_compressed = False\<rparr>])
   \<and> one_per_key (snd (MongoStore_set \<lparr>MongoOptions_ttl = Some 10, compression = False\<rparr> frame_zlib
        (calm 1000) ''k'' (JNum 2) None
        [\<lparr>doc_key = ''k'', doc_value = JNum 1, doc_expiresAt = 5000, doc_compressed = False\<rparr>]))
   \<and> run \<lparr>MongoOptions_ttl = Some 10, compression = False\<rparr> frame_zlib
        [Set (calm 1000) ''k'' (JNum 2) None, Set (calm 1000) ''j'' (JNum 3) None,
         Get (calm 20000) ''k'', Set (calm 20000) ''j'' (JNum 4) (Some \<lparr>ttl = Some 1\<rparr>)]
        [\<lparr>doc_key = ''k'', doc_value = JNum 1, doc_expiresAt = 5000, doc_compressed = False\<rparr>]
      = [\<lparr>doc_key = ''j'', doc_value = JNum 4, doc_expiresAt = 21000, doc_compressed = False\<rparr>]
   \<and> length (filter (\<lambda>d. doc_key d = ''k'')
        (snd (MongoStore_set \<lparr>MongoOptions_ttl = Some 10, compression = False\<rparr> frame_zlib
          (calm 1000) ''k'' (JNum 2) None
          [\<lparr>doc_key = ''k'', doc_value = JNum 1, doc_expiresAt = 5000, doc_compressed = False\<rparr>]))) = 1"
  using one_entry_per_key_preserved
    [where c = "[\<lparr>doc_key = ''k'', doc_value = JNum 1, doc_expiresAt = 5000, doc_compressed = False\<rparr>]"
      and st = "\<lparr>MongoOptions_ttl = Some 10, compression = False\<rparr>" and zl = frame_zlib
      and w = "calm 1000" and k = "''k''" and val = "JNum 2" and opts = None and karg = JNull
      and calls = "[Set (calm 1000) ''k'' (JNum 2) None, Set (calm 1000) ''j'' (JNum 3) None,
         Get (calm 20000) ''k'', Set (calm 20000) ''j'' (JNum 4) (Some \<lparr>ttl = Some 1\<rparr>)]"]
  by (simp add: run_defs one_per_key_def)

theorem unique_index_admits_two_entries_per_key:
  "index_satisfied (createIndex_spec \<lparr>MongoOptions_ttl = Some 10, compression = False\<rparr>)
     [\<lparr>doc_key = ''k'', doc_value = JNum 1, doc_expiresAt = 5000, doc_compressed = False\<rparr>,
      \<lparr>doc_key = ''k'', doc_value = JNum 2, doc_expiresAt = 6000, doc_compressed = False\<rparr>]
   \<and> \<not> one_per_key
     [\<lparr>doc_key = ''k'', doc_value = JNum 1, doc_expiresAt = 5000, doc_compressed = False\<rparr>,
      \<lparr>doc_key = ''k'', doc_value = JNum 2, doc_expiresAt = 6000, doc_compressed = False\<rparr>]"
  by (simp add: index_satisfied_def createIndex_spec_def doc_field_def one_per_key_def)

text \<open>
  C5. After a \<^verbatim>\<open>set\<close> that succeeds, the entry stored under the key has the
  \<^verbatim>\<open>compressed\<close> flag if and only if compression is enabled and the value is a
  \<^verbatim>\<open>Buffer\<close>; then its value is the output of \<^verbatim>\<open>gzip\<close>, and otherwise it is the value
  as passed, whatever the compression setting.
\<close>

theorem set_compresses_iff_enabled_and_Buffer:
  assumes "update_fault w = WriteOk"
    and "fst (MongoStore_set st zl w k val opts c) = Inr r"
  shows "\<exists>d. find (\<lambda>d. doc_key d = k) (snd (MongoStore_set st zl w k val opts c)) = Some d
           \<and> (doc_compressed d \<longleftrightarrow> compression st \<and> isBuffer val)
           \<and> (if compression st \<and> isBuffer val
              then \<exists>b z. val = JBuffer b \<and> gzip zl b = Inr z \<and> doc_value d = JBuffer z
              else doc_value d = val)"
proof (cases "compression st \<and> isBuffer val")
  case False
  have "find (\<lambda>d. doc_key d = k) (upsert k (set_data st w k val opts) c) = Some (set_data st w k val opts)"
    by (rule find_upsert) (simp add: set_data_def)
  then show ?thesis
    using False assms(1) by (auto simp add: set_not_compressed update_WriteOk set_data_def)
next
  case True
  then obtain b where v: "val = JBuffer b" by (cases val) simp_all
  show ?thesis
  proof (cases "gzip zl b")
    case (Inl e)
    then show ?thesis
      using True v assms(2) by (simp add: set_compression_fails)
  next
    case (Inr z)
    let ?d = "(set_data st w k val opts)\<lparr>doc_value := JBuffer z, doc_compressed := True\<rparr>"
    have "find (\<lambda>d. doc_key d = k) (upsert k ?d c) = Some ?d"
      by (rule find_upsert) (simp add: set_data_def)
    then show ?thesis
      using True v Inr assms(1) by (simp add: set_compressed update_WriteOk set_data_def)
  qed
qed

theorem set_compresses_witness:
  "update_fault (calm 1000) = WriteOk
   \<and> fst (MongoStore_set \<lparr>MongoOptions_ttl = None, compression = True\<rparr> frame_zlib (calm 1000)
        ''k'' (JBuffer [1, 2, 3]) None []) = Inr (JBuffer [1, 2, 3])
   \<and> find (\<lambda>d. doc_key d = ''k'')
        (snd (MongoStore_set \<lparr>MongoOptions_ttl = None, compression = True\<rparr> frame_zlib (calm 1000)
               ''k'' (JBuffer [1, 2, 3]) None []))
      = Some \<lparr>doc_key = ''k'', doc_value = JBuffer [0x1f, 0x8b, 1, 2, 3], doc_expiresAt = 61000,
              doc_compressed = True\<rparr>
   \<and> find (\<lambda>d. doc_key d = ''k'')
        (snd (MongoStore_set \<lparr>MongoOptions_ttl = None, compression = True\<rparr> frame_zlib (calm 1000)
               ''k'' (JStr ''abc'') None []))
      = Some \<lparr>doc_key = ''k'', doc_value = JStr ''abc'', doc_expiresAt = 61000,
              doc_compressed = False\<rparr>"
  using set_compresses_iff_enabled_and_Buffer
    [where w = "calm 1000" and st = "\<lparr>MongoOptions_ttl = None, compression = True\<rparr>"
      and zl = frame_zlib and k = "''k''" and val = "JBuffer [1, 2, 3]" and opts = None and c = "[]"
      and r = "JBuffer [1, 2, 3]"]
    set_compresses_iff_enabled_and_Buffer
    [where w = "calm 1000" and st = "\<lparr>MongoOptions_ttl = None, compression = True\<rparr>"
      and zl = frame_zlib and k = "''k''" and val = "JStr ''abc''" and opts = None and c = "[]"
      and r = "JStr ''abc''"]
  by (simp add: run_defs)

text \<open>
  C6. What \<^verbatim>\<open>set\<close> delivers to its callback is what the specification says: the
  error of a failed compression or of the database, \<^verbatim>\<open>null\<close> when the database reports
  that no document was affected, and otherwise the value as passed to \<^verbatim>\<open>set\<close>, not
  its stored encoding.
\<close>

theorem set_callback_is_spec:
  "fst (MongoStore_set st zl w k val opts c) = spec_set_callback st zl w val"
proof (cases "compression st \<and> isBuffer val")
  case False
  then show ?thesis
    by (cases val) (auto simp add: set_not_compressed fst_update spec_set_callback_def)
next
  case True
  then obtain b where v: "val = JBuffer b" by (cases val) simp_all
  show ?thesis
  proof (cases "gzip zl b")
    case (Inl e)
    then show ?thesis
      using True v by (simp add: set_compression_fails spec_set_callback_def)
  next
    case (Inr z)
    then show ?thesis
      using True v by (simp add: set_compressed fst_update spec_set_callback_def)
  qed
qed

text \<open>
  C7. For a key with no stored document, \<^verbatim>\<open>get\<close> delivers \<^verbatim>\<open>null\<close> and \<^verbatim>\<open>del\<close>
  delivers the acknowledgement of zero removed documents; the only error either can
  deliver is a failure of the database itself. The collection is unchanged.
\<close>

theorem absent_key_is_not_an_error:
  assumes "find (\<lambda>d. doc_key d = k) c = None"
  shows "MongoStore_get zl w k c =
           ((case findOne_err w of None \<Rightarrow> Inr JNull | Some e \<Rightarrow> Inl e), c)
         \<and> MongoStore_del w' k c =
           ((case remove_err w' of None \<Rightarrow> Inr 0 | Some e \<Rightarrow> Inl e), c)"
proof -
  have "filter (matches (ByKey k)) c = [] \<and> filter (\<lambda>d. \<not> matches (ByKey k) d) c = c"
    using find_None_filter [OF assms] by (simp add: matches_ByKey)
  then show ?thesis
    using assms
    by (simp add: MongoStore_get_def MongoStore_del_def coll_findOne_def coll_remove_def
        split: option.splits)
qed

theorem absent_key_witness:
  "find (\<lambda>d. doc_key d = ''k'')
     [\<lparr>doc_key = ''other'', doc_value = JNum 1, doc_expiresAt = 5000, doc_compressed = False\<rparr>] = None
   \<and> MongoStore_get frame_zlib (calm 1000) ''k''
        [\<lparr>doc_key = ''other'', doc_value = JNum 1, doc_expiresAt = 5000, doc_compressed = False\<rparr>]
      = (Inr JNull,
         [\<lparr>doc_key = ''other'', doc_value = JNum 1, doc_expiresAt = 5000, doc_compressed = False\<rparr>])
   \<and> MongoStore_del (calm 1000) ''k''
        [\<lparr>doc_key = ''other'', doc_value = JNum 1, doc_expiresAt = 5000, doc_compressed = False\<rparr>]
      = (Inr 0,
         [\<lparr>doc_key = ''other'', doc_value = JNum 1, doc_expiresAt = 5000, doc_compressed = False\<rparr>])"
  using absent_key_is_not_an_error
    [where k = "''k''" and zl = frame_zlib and w = "calm 1000" and w' = "calm 1000"
      and c = "[\<lparr>doc_key = ''other'', doc_value = JNum 1, doc_expiresAt = 5000, doc_compressed = False\<rparr>]"]
  by (simp add: calm_def)

text \<open>
  C8. A \<^verbatim>\<open>reset\<close> that the database performs removes every document, whatever its
  first argument, and a \<^verbatim>\<open>get\<close> of any key afterwards reports absent.
\<close>

theorem reset_removes_everything:
  assumes "remove_err w = None" and "findOne_err w' = None"
  shows "MongoStore_reset w karg c = (Inr (length c), [])
         \<and> MongoStore_reset w karg' c = MongoStore_reset w karg c
         \<and> MongoStore_get zl w' k (snd (MongoStore_reset w karg c)) = (Inr JNull, [])"
  using assms
  by (simp add: MongoStore_reset_def coll_remove_def MongoStore_get_def coll_findOne_def)

theorem reset_witness:
  "remove_err (calm 1000) = None \<and> findOne_err (calm 2000) = None
   \<and> MongoStore_reset (calm 1000) (JStr ''a'')
        [\<lparr>doc_key = ''a'', doc_value = JNum 1, doc_expiresAt = 5000, doc_compressed = False\<rparr>,
         \<lparr>doc_key = ''b'', doc_value = JNum 2, doc_expiresAt = 5000, doc_compressed = False\<rparr>]
      = (Inr 2, [])
   \<and> MongoStore_get frame_zlib (calm 2000) ''b''
        (snd (MongoStore_reset (calm 1000) (JStr ''a'')
          [\<lparr>doc_key = ''a'', doc_value = JNum 1, doc_expiresAt = 5000, doc_compressed = False\<rparr>,
           \<lparr>doc_key = ''b'', doc_value = JNum 2, doc_expiresAt = 5000, doc_compressed = False\<rparr>]))
      = (Inr JNull, [])"
  using reset_removes_everything
    [where w = "calm 1000" and w' = "calm 2000" and karg = "JStr ''a''" and karg' = JNull
      and zl = frame_zlib and k = "''b''"
      and c = "[\<lparr>doc_key = ''a'', doc_value = JNum 1, doc_expiresAt = 5000, doc_compressed = False\<rparr>,
        \<lparr>doc_key = ''b'', doc_value = JNum 2, doc_expiresAt = 5000, doc_compressed = False\<rparr>]"]
  by (simp add: run_defs)

text \<open>
  C9. \<^verbatim>\<open>isCacheableValue\<close> is a function of its argument alone; it is false
  exactly for \<^verbatim>\<open>null\<close> and \<^verbatim>\<open>undefined\<close>, and true for every other value, among
  them \<^verbatim>\<open>0\<close>, the empty string and \<^verbatim>\<open>false\<close>.
\<close>

theorem isCacheableValue_exact:
  "(\<not> isCacheableValue v \<longleftrightarrow> v = JNull \<or> v = JUndefined)
   \<and> isCacheableValue (JNum 0) \<and> isCacheableValue (JStr '''') \<and> isCacheableValue (JBool False)"
  by (simp add: isCacheableValue_def)

text \<open>
  C10. When compression is enabled and \<^verbatim>\<open>gzip\<close> fails on the \<^verbatim>\<open>Buffer\<close>, \<^verbatim>\<open>set\<close>
  delivers that error and the collection is unchanged.
\<close>

theorem set_compression_failure_writes_nothing:
  assumes "compression st" and "gzip zl b = Inl e"
  shows "MongoStore_set st zl w k (JBuffer b) opts c = (Inl e, c)"
  using assms by (simp add: MongoStore_set_def compress_def set_data_def)

theorem set_compression_failure_witness:
  "compression \<lparr>MongoOptions_ttl = None, compression = True\<rparr>
   \<and> gzip \<lparr>gzip = (\<lambda>b. Inl (ZlibError ''stream error'')), gunzip = gunzip frame_zlib\<rparr> [1, 2, 3]
       = Inl (ZlibError ''stream error'')
   \<and> MongoStore_set \<lparr>MongoOptions_ttl = None, compression = True\<rparr>
        \<lparr>gzip = (\<lambda>b. Inl (ZlibError ''stream error'')), gunzip = gunzip frame_zlib\<rparr>
        (calm 1000) ''k'' (JBuffer [1, 2, 3]) None
        [\<lparr>doc_key = ''k'', doc_value = JNum 1, doc_expiresAt = 5000, doc_compressed = False\<rparr>]
      = (Inl (ZlibError ''stream error''),
         [\<lparr>doc_key = ''k'', doc_value = JNum 1, doc_expiresAt = 5000, doc_compressed = False\<rparr>])"
  using set_compression_failure_writes_nothing
    [where st = "\<lparr>MongoOptions_ttl = None, compression = True\<rparr>"
      and zl = "\<lparr>gzip = (\<lambda>b. Inl (ZlibError ''stream error'')), gunzip = gunzip frame_zlib\<rparr>"
      and b = "[1, 2, 3]" and e = "ZlibError ''stream error''" and w = "calm 1000" and k = "''k''"
      and opts = None
      and c = "[\<lparr>doc_key = ''k'', doc_value = JNum 1, doc_expiresAt = 5000, doc_compressed = False\<rparr>]"]
  by simp

end
